theory Spec2Isabelle
  imports Complex_Main "HOL-Library.Sublist"
begin

section \<open>Product Query Normalizer: data model (schemas.py)\<close>

text \<open>
  The embedding follows the Python sources of the Product Query Normalizer.
  Python floats are idealised as exact rationals (\<open>rat\<close>): comparisons, the factor
  \<open>0.7\<close> and the averages are computed without rounding, and infinities and NaN
  are outside the number model. Python text is a \<open>string\<close> of 8-bit characters: the
  modelled inputs are ASCII, and the rupee sign of the sources is spelled by its
  UTF-8 bytes. Exceptions are values of the type \<open>error\<close>; pydantic's
  \<open>ValidationError\<close> is a \<open>ValueError\<close> in Python, which the handlers of the
  clarifier rely on.
\<close>

datatype error = ValidationError | ValueError

datatype ProductTypeEnum =
  HEADPHONES | EARBUDS | SPEAKERS | MICROPHONE | CAMERA | LAPTOP | PHONE | TABLET | WATCH
  | UNKNOWN

fun product_value :: "ProductTypeEnum \<Rightarrow> string" where
  "product_value HEADPHONES = ''headphones''"
| "product_value EARBUDS = ''earbuds''"
| "product_value SPEAKERS = ''speakers''"
| "product_value MICROPHONE = ''microphone''"
| "product_value CAMERA = ''camera''"
| "product_value LAPTOP = ''laptop''"
| "product_value PHONE = ''phone''"
| "product_value TABLET = ''tablet''"
| "product_value WATCH = ''watch''"
| "product_value UNKNOWN = ''unknown''"

definition all_products :: "ProductTypeEnum list" where
  \<comment> \<open>iteration order of the enum class\<close>
  "all_products =
     [HEADPHONES, EARBUDS, SPEAKERS, MICROPHONE, CAMERA, LAPTOP, PHONE, TABLET, WATCH, UNKNOWN]"

definition ProductTypeEnum_of :: "string \<Rightarrow> error + ProductTypeEnum" where
  \<comment> \<open>\<open>ProductTypeEnum(response)\<close>: lookup by value, \<open>ValueError\<close> when there is none\<close>
  "ProductTypeEnum_of s =
     (case find (\<lambda>p. product_value p = s) all_products of
        None \<Rightarrow> Inl ValueError
      | Some p \<Rightarrow> Inr p)"

datatype UsageContextEnum =
  GYM | OFFICE | HOME | OUTDOOR | TRAVEL | GAMING | PROFESSIONAL | CASUAL | UNKNOWN_CONTEXT

fun context_value :: "UsageContextEnum \<Rightarrow> string" where
  "context_value GYM = ''gym''"
| "context_value OFFICE = ''office''"
| "context_value HOME = ''home''"
| "context_value OUTDOOR = ''outdoor''"
| "context_value TRAVEL = ''travel''"
| "context_value GAMING = ''gaming''"
| "context_value PROFESSIONAL = ''professional''"
| "context_value CASUAL = ''casual''"
| "context_value UNKNOWN_CONTEXT = ''unknown''"

definition all_contexts :: "UsageContextEnum list" where
  "all_contexts =
     [GYM, OFFICE, HOME, OUTDOOR, TRAVEL, GAMING, PROFESSIONAL, CASUAL, UNKNOWN_CONTEXT]"

record PriceRange =
  min_price :: rat
  max_price :: rat

definition validate_max_price :: "rat option \<Rightarrow> rat \<Rightarrow> error + rat" where
  \<comment> \<open>the field validator of \<open>max_price\<close>; the first argument is \<open>info.data\<close> at
      \<open>min_price\<close>, absent when that field failed its own check\<close>
  "validate_max_price data_min v =
     (case data_min of
        Some m \<Rightarrow> if v < m then Inl ValueError else Inr v
      | None \<Rightarrow> Inr v)"

definition PriceRange_init :: "rat \<Rightarrow> rat \<Rightarrow> error + PriceRange" where
  \<comment> \<open>\<open>PriceRange(min_price=mn, max_price=mx)\<close>: both fields carry \<open>ge=0\<close>, then the
      validator of \<open>max_price\<close> runs; any failed field makes the construction raise\<close>
  "PriceRange_init mn mx =
     (let fmin = (if 0 \<le> mn then Some mn else None);
          fmax = (if 0 \<le> mx
                  then (case validate_max_price fmin mx of Inr v \<Rightarrow> Some v | Inl e \<Rightarrow> None)
                  else None)
      in case fmin of
           None \<Rightarrow> Inl ValidationError
         | Some a \<Rightarrow> (case fmax of
                        None \<Rightarrow> Inl ValidationError
                      | Some b \<Rightarrow> Inr \<lparr>min_price = a, max_price = b\<rparr>))"

record ParsedQuery =
  product_type :: ProductTypeEnum
  price_range :: "PriceRange option"
  usage_context :: "UsageContextEnum list"
  feature_preferences :: "string list"
  original_query :: string
  confidence_score :: rat
  is_complete :: bool
  missing_fields :: "string list"

definition ParsedQuery_init ::
  "ProductTypeEnum \<Rightarrow> PriceRange option \<Rightarrow> UsageContextEnum list \<Rightarrow> string list \<Rightarrow> string
     \<Rightarrow> rat \<Rightarrow> bool \<Rightarrow> string list \<Rightarrow> error + ParsedQuery" where
  \<comment> \<open>the constructor checks \<open>confidence_score\<close> against \<open>ge=0.0, le=1.0\<close>; no
      validator relates \<open>is_complete\<close> to \<open>missing_fields\<close>\<close>
  "ParsedQuery_init pt pr uc fp oq cs ic mf =
     (if 0 \<le> cs \<and> cs \<le> 1
      then Inr \<lparr>product_type = pt, price_range = pr, usage_context = uc,
                feature_preferences = fp, original_query = oq, confidence_score = cs,
                is_complete = ic, missing_fields = mf\<rparr>
      else Inl ValidationError)"

definition ParsedQuery_defaults :: "ProductTypeEnum \<Rightarrow> string \<Rightarrow> error + ParsedQuery" where
  \<comment> \<open>\<open>ParsedQuery(product_type=pt, original_query=oq)\<close> with every default of the class\<close>
  "ParsedQuery_defaults pt oq = ParsedQuery_init pt None [] [] oq (1 / 2) False []"

record ClarificationRequest =
  field_name :: string
  field_label :: string
  current_value :: "string option"
  options :: "string list option"
  question :: string

record NormalizedResult =
  parsed_query :: ParsedQuery
  clarifications_made :: "ClarificationRequest list"
  is_valid :: bool
  validation_errors :: "string list"

section \<open>Text helpers\<close>

definition rupee :: string where
  \<comment> \<open>U+20B9 in UTF-8\<close>
  "rupee = [CHR 0xE2, CHR 0x82, CHR 0xB9]"

function str_int :: "int \<Rightarrow> string" where
  \<comment> \<open>\<open>str(n)\<close> for \<open>0 \<le> n\<close>, the only integers the sources print\<close>
  "str_int n =
     (if n < 10 then [char_of (48 + n)]
      else str_int (n div 10) @ [char_of (48 + n mod 10)])"
  by pat_completeness auto
termination
  by (relation "measure nat") auto

declare str_int.simps [simp del]

definition round_half_even :: "rat \<Rightarrow> int" where
  "round_half_even x =
     (let f = \<lfloor>x\<rfloor>; d = x - of_int f
      in if d < 1 / 2 then f
         else if 1 / 2 < d then f + 1
         else if even f then f else f + 1)"

definition fmt_f1 :: "rat \<Rightarrow> string" where
  \<comment> \<open>the format \<open>{x:.1f}\<close>, on the exact value\<close>
  "fmt_f1 x =
     (let n = round_half_even (\<bar>x\<bar> * 10)
      in (if x < 0 then ''-'' else '''') @ str_int (n div 10) @ ''.'' @ str_int (n mod 10))"

definition fmt_pct1 :: "rat \<Rightarrow> string" where
  \<comment> \<open>the format \<open>{x:.1%}\<close>\<close>
  "fmt_pct1 x = fmt_f1 (x * 100) @ ''%''"

section \<open>Validator (validator.py)\<close>

fun MINIMUM_BUDGET :: "ProductTypeEnum \<Rightarrow> int option" where
  "MINIMUM_BUDGET HEADPHONES = Some 500"
| "MINIMUM_BUDGET EARBUDS = Some 1000"
| "MINIMUM_BUDGET SPEAKERS = Some 1500"
| "MINIMUM_BUDGET MICROPHONE = Some 2000"
| "MINIMUM_BUDGET CAMERA = Some 15000"
| "MINIMUM_BUDGET LAPTOP = Some 30000"
| "MINIMUM_BUDGET PHONE = Some 10000"
| "MINIMUM_BUDGET TABLET = Some 10000"
| "MINIMUM_BUDGET WATCH = Some 5000"
| "MINIMUM_BUDGET UNKNOWN = None"

fun MAXIMUM_BUDGET :: "ProductTypeEnum \<Rightarrow> int option" where
  "MAXIMUM_BUDGET HEADPHONES = Some 50000"
| "MAXIMUM_BUDGET EARBUDS = Some 30000"
| "MAXIMUM_BUDGET SPEAKERS = Some 100000"
| "MAXIMUM_BUDGET MICROPHONE = Some 50000"
| "MAXIMUM_BUDGET CAMERA = Some 500000"
| "MAXIMUM_BUDGET LAPTOP = Some 500000"
| "MAXIMUM_BUDGET PHONE = Some 150000"
| "MAXIMUM_BUDGET TABLET = Some 100000"
| "MAXIMUM_BUDGET WATCH = Some 50000"
| "MAXIMUM_BUDGET UNKNOWN = None"

definition msg_negative :: string where
  "msg_negative = ''Price values cannot be negative''"

definition msg_max_below_min :: string where
  "msg_max_below_min = ''Maximum price must be >= minimum price''"

definition msg_too_wide :: "rat \<Rightarrow> string" where
  "msg_too_wide ratio =
     ''Price range too wide (ratio '' @ fmt_f1 ratio @ ''x). ''
     @ ''Consider narrowing your budget for better recommendations.''"

definition validate_price_range :: "PriceRange option \<Rightarrow> bool \<times> string list" where
  "validate_price_range pr =
     (case pr of
        None \<Rightarrow> (True, [])
      | Some r \<Rightarrow>
          if min_price r < 0 \<or> max_price r < 0 then (False, [msg_negative])
          else if max_price r < min_price r then (False, [msg_max_below_min])
          else
            (let errors =
                   (if 0 < max_price r \<and> 0 < min_price r
                    then (let ratio = max_price r / min_price r
                          in if 10 < ratio then [msg_too_wide ratio] else [])
                    else [])
             in (length errors = 0, errors)))"

definition validate_against_product_type ::
  "ProductTypeEnum \<Rightarrow> PriceRange option \<Rightarrow> bool \<times> string list" where
  "validate_against_product_type pt pr =
     (case pr of
        None \<Rightarrow> (True, [])
      | Some r \<Rightarrow>
          if pt = UNKNOWN then (True, [])
          else
            (let min_budget = (case MINIMUM_BUDGET pt of Some b \<Rightarrow> b | None \<Rightarrow> 500);
                 max_budget = (case MAXIMUM_BUDGET pt of Some b \<Rightarrow> b | None \<Rightarrow> 500000);
                 w1 = (if max_price r < of_int min_budget
                       then [''Budget may be too low for '' @ product_value pt
                             @ ''. Minimum recommended: '' @ rupee @ str_int min_budget]
                       else []);
                 w2 = (if of_int max_budget < min_price r
                       then [''Budget seems very high for '' @ product_value pt
                             @ ''. Maximum typical: '' @ rupee @ str_int max_budget]
                       else [])
             in (True, w1 @ w2)))"

definition validate_query :: "ParsedQuery \<Rightarrow> NormalizedResult" where
  \<comment> \<open>the warnings of the product type check are computed and dropped, as in the source\<close>
  "validate_query q =
     (let (price_valid, price_errors) = validate_price_range (price_range q);
          errors = (if \<not> price_valid then price_errors else []);
          (u, price_warnings) = validate_against_product_type (product_type q) (price_range q)
      in \<lparr>parsed_query = q, clarifications_made = [], is_valid = price_valid,
          validation_errors = errors\<rparr>)"

section \<open>Text operations of Python used by the parser\<close>

definition is_digit :: "char \<Rightarrow> bool" where
  "is_digit c = (48 \<le> (of_char c :: nat) \<and> (of_char c :: nat) \<le> 57)"

definition is_space :: "char \<Rightarrow> bool" where
  \<comment> \<open>the ASCII characters on which \<open>str.isspace\<close> holds\<close>
  "is_space c =
     (let n = (of_char c :: nat) in (9 \<le> n \<and> n \<le> 13) \<or> (28 \<le> n \<and> n \<le> 32))"

definition lower_char :: "char \<Rightarrow> char" where
  "lower_char c =
     (let n = (of_char c :: nat) in if 65 \<le> n \<and> n \<le> 90 then char_of (n + 32) else c)"

definition lower :: "string \<Rightarrow> string" where
  "lower s = map lower_char s"

definition strip :: "string \<Rightarrow> string" where
  "strip s = rev (dropWhile is_space (rev (dropWhile is_space s)))"

definition normalize_text :: "string \<Rightarrow> string" where
  "normalize_text text = strip (lower text)"

fun contains :: "string \<Rightarrow> string \<Rightarrow> bool" where
  \<comment> \<open>\<open>k in s\<close> on strings\<close>
  "contains k [] = (k = [])"
| "contains k (c # cs) = (prefix k (c # cs) \<or> contains k cs)"

definition remove_char :: "char \<Rightarrow> string \<Rightarrow> string" where
  \<comment> \<open>\<open>s.replace(c, "")\<close> for a single character\<close>
  "remove_char c s = filter (\<lambda>x. x \<noteq> c) s"

fun split_on :: "char \<Rightarrow> string \<Rightarrow> string list" where
  \<comment> \<open>\<open>s.split(c)\<close>: never the empty list\<close>
  "split_on c [] = [[]]"
| "split_on c (x # xs) =
     (if x = c then [] # split_on c xs
      else (case split_on c xs of
              [] \<Rightarrow> [[x]]
            | w # ws \<Rightarrow> (x # w) # ws))"

subsection \<open>The conversion \<open>float(s)\<close>\<close>

text \<open>
  The decimal grammar of Python's \<open>float\<close> on strings: surrounding whitespace, a
  sign, digits with single underscores between them, a fraction, an exponent. The value
  is exact. The spellings of infinity and NaN have no rational value and are not numbers
  of this model.
\<close>

fun digitpart :: "int \<Rightarrow> nat \<Rightarrow> string \<Rightarrow> int \<times> nat \<times> string" where
  \<comment> \<open>accumulated value, number of digits read, rest of the input\<close>
  "digitpart v n [] = (v, n, [])"
| "digitpart v n (c # cs) =
     (if is_digit c then digitpart (10 * v + (of_char c - 48)) (Suc n) cs
      else if c = CHR ''_'' \<and> 0 < n \<and> (case cs of [] \<Rightarrow> False | d # ds \<Rightarrow> is_digit d)
      then digitpart v n cs
      else (v, n, c # cs))"

definition py_sign :: "string \<Rightarrow> bool \<times> string" where
  "py_sign s =
     (case s of
        [] \<Rightarrow> (False, [])
      | c # cs \<Rightarrow> if c = CHR ''-'' then (True, cs)
                 else if c = CHR ''+'' then (False, cs)
                 else (False, c # cs))"

definition py_exponent :: "rat \<Rightarrow> string \<Rightarrow> error + rat" where
  "py_exponent m s =
     (case s of
        [] \<Rightarrow> Inr m
      | c # cs \<Rightarrow>
          if c = CHR ''e'' \<or> c = CHR ''E''
          then (let (eneg, t) = py_sign cs;
                    (e, ne, r) = digitpart 0 0 t
                in if ne = 0 \<or> r \<noteq> [] then Inl ValueError
                   else if eneg then Inr (m / 10 ^ nat e) else Inr (m * 10 ^ nat e))
          else Inl ValueError)"

definition py_float :: "string \<Rightarrow> error + rat" where
  "py_float s =
     (let (neg, u) = py_sign (strip s);
          (ip, ni, r1) = digitpart 0 0 u;
          (fp, nf, r2) = (case r1 of
                            [] \<Rightarrow> (0, 0, [])
                          | c # cs \<Rightarrow> if c = CHR ''.'' then digitpart 0 0 cs
                                     else (0, 0, c # cs))
      in if ni = 0 \<and> nf = 0 then Inl ValueError
         else (case py_exponent (of_int ip + of_int fp / 10 ^ nf) r2 of
                 Inl e \<Rightarrow> Inl e
               | Inr m \<Rightarrow> Inr (if neg then - m else m)))"

subsection \<open>Regular expressions: the fragment of \<open>re\<close> that the price patterns use\<close>

datatype rx = Lit string | Digit | Space | OneOf string | Seq rx rx | Alt rx rx | Opt rx | Star rx

text \<open>
  A backtracking matcher: \<open>rx_ends r s\<close> lists the inputs left after each way of
  matching \<open>r\<close> at the start of \<open>s\<close>, in the order in which the backtracking
  engine tries them (alternatives left to right, repetition greedy).
\<close>

function rx_ends :: "rx \<Rightarrow> string \<Rightarrow> string list" where
  "rx_ends (Lit w) s = (if prefix w s then [drop (length w) s] else [])"
| "rx_ends Digit s = (case s of [] \<Rightarrow> [] | c # cs \<Rightarrow> if is_digit c then [cs] else [])"
| "rx_ends Space s = (case s of [] \<Rightarrow> [] | c # cs \<Rightarrow> if is_space c then [cs] else [])"
| "rx_ends (OneOf w) s = (case s of [] \<Rightarrow> [] | c # cs \<Rightarrow> if c \<in> set w then [cs] else [])"
| "rx_ends (Seq a b) s = concat (map (rx_ends b) (rx_ends a s))"
| "rx_ends (Alt a b) s = rx_ends a s @ rx_ends b s"
| "rx_ends (Opt a) s = rx_ends a s @ [s]"
| "rx_ends (Star a) s =
     concat (map (\<lambda>r. if length r < length s then rx_ends (Star a) r else []) (rx_ends a s))
     @ [s]"
  by pat_completeness auto
termination
  by (relation "measure size <*lex*> measure length") auto

definition rx_plus :: "rx \<Rightarrow> rx" where
  "rx_plus a = Seq a (Star a)"

fun alts :: "string list \<Rightarrow> rx" where
  \<comment> \<open>\<open>(?:w1|w2|...)\<close>\<close>
  "alts [] = Lit []"
| "alts [w] = Lit w"
| "alts (w # ws) = Alt (Lit w) (alts ws)"

text \<open>A pattern with one capturing group: what precedes the group, the group, what follows.\<close>

type_synonym pattern = "rx \<times> rx \<times> rx"

definition rx_match :: "pattern \<Rightarrow> string \<Rightarrow> (string \<times> string) option" where
  \<comment> \<open>the first match at the start of \<open>s\<close>: the text of the group and the input left\<close>
  "rx_match p s =
     (case p of (pre, grp, suf) \<Rightarrow>
        (case concat (map (\<lambda>r1. concat (map (\<lambda>r2. map (\<lambda>r3. (take (length r1 - length r2) r1, r3))
                                                     (rx_ends suf r2))
                                          (rx_ends grp r1)))
                          (rx_ends pre s)) of
           [] \<Rightarrow> None
         | m # ms \<Rightarrow> Some m))"

function findall :: "pattern \<Rightarrow> string \<Rightarrow> string list" where
  \<comment> \<open>\<open>re.findall\<close> for a pattern with one group: the group of every match, scanning
      left to right and resuming where a match ended\<close>
  "findall p s =
     (case rx_match p s of
        None \<Rightarrow> (case s of [] \<Rightarrow> [] | c # cs \<Rightarrow> findall p cs)
      | Some (g, r) \<Rightarrow>
          g # (if length r < length s then findall p r
               else (case s of [] \<Rightarrow> [] | c # cs \<Rightarrow> findall p cs)))"
  by pat_completeness auto
termination
  by (relation "measure (\<lambda>(p, s). length s)") auto

declare rx_ends.simps(8) [simp del]

declare findall.simps [simp del]

section \<open>Parser (parser.py)\<close>

definition PRODUCT_KEYWORDS :: "(ProductTypeEnum \<times> string list) list" where
  "PRODUCT_KEYWORDS =
     [(HEADPHONES, [''headphones'', ''headphone'', ''over-ear'', ''over ear'', ''on-ear'']),
      (EARBUDS, [''earbuds'', ''earbud'', ''buds'', ''tws'', ''true wireless'', ''airpods'']),
      (SPEAKERS, [''speaker'', ''speakers'', ''bluetooth speaker'', ''portable speaker'']),
      (MICROPHONE, [''microphone'', ''mic'', ''studio mic'', ''condenser'']),
      (CAMERA, [''camera'', ''dslr'', ''mirrorless'', ''action camera'', ''gopro'']),
      (LAPTOP, [''laptop'', ''notebook'', ''macbook'', ''gaming laptop'']),
      (PHONE, [''phone'', ''smartphone'', ''mobile'', ''iphone'', ''android'']),
      (TABLET, [''tablet'', ''ipad'', ''galaxy tab'']),
      (WATCH, [''watch'', ''smartwatch'', ''fitness watch'', ''wearable''])]"

definition CONTEXT_KEYWORDS :: "(UsageContextEnum \<times> string list) list" where
  "CONTEXT_KEYWORDS =
     [(GYM, [''gym'', ''workout'', ''exercise'', ''fitness'', ''running'', ''jogging'', ''sports'']),
      (OFFICE, [''office'', ''work'', ''meeting'', ''conference'', ''calls'', ''professional'']),
      (HOME, [''home'', ''house'', ''living room'', ''bedroom'', ''domestic'']),
      (OUTDOOR, [''outdoor'', ''outdoors'', ''outside'', ''hiking'', ''camping'', ''trail'']),
      (TRAVEL, [''travel'', ''trip'', ''journey'', ''commute'', ''plane'', ''flight'']),
      (GAMING, [''gaming'', ''game'', ''esports'', ''competitive'', ''fps'', ''moba'']),
      (PROFESSIONAL,
         [''professional'', ''studio'', ''recording'', ''streaming'', ''podcast'', ''content''])]"

definition FEATURE_KEYWORDS :: "string list" where
  "FEATURE_KEYWORDS =
     [''waterproof'', ''water resistant'', ''dust proof'', ''ip67'', ''ip68'',
      ''noise-cancelling'', ''noise cancelling'', ''anc'', ''active noise'',
      ''wireless'', ''bluetooth'', ''wired'', ''usb-c'', ''usb c'',
      ''long battery'', ''battery life'', ''fast charging'',
      ''lightweight'', ''portable'', ''compact'',
      ''comfortable'', ''ergonomic'', ''fit'',
      ''premium'', ''wireless charging'', ''touch control'',
      ''3d audio'', ''surround'', ''bass boost'', ''eq'']"

definition rx_number :: rx where
  \<comment> \<open>\<open>\d+(?:[,.]?\d{3})*\<close>\<close>
  "rx_number = Seq (rx_plus Digit) (Star (Seq (Opt (OneOf '',.'')) (Seq Digit (Seq Digit Digit))))"

definition rx_currency :: rx where
  \<comment> \<open>\<open>(?:\<rupee>|rs\.|rs)\<close>\<close>
  "rx_currency = alts [rupee, ''rs.'', ''rs'']"

definition PRICE_PATTERNS :: "pattern list" where
  "PRICE_PATTERNS =
     [(Seq (alts [''around'', ''upto'', ''up to'', ''within'', ''under'', ''below''])
         (Seq (rx_plus Space) (Seq (Opt rx_currency) (Star Space))),
       rx_number, Lit []),
      (Seq (alts [''budget'', ''price'', ''cost''])
         (Seq (rx_plus Space) (Seq (Opt (alts [''of'', ''is'', ''around'']))
            (Seq (rx_plus Space) (Seq (Opt rx_currency) (Star Space))))),
       rx_number, Lit []),
      (Seq rx_currency (Star Space), rx_number, Lit []),
      (Seq (Lit ''$'') (Star Space), rx_number, Lit []),
      (Lit [], rx_number,
       Seq (Star Space) (alts [''rupees'', ''inr'', ''dollars'', ''usd'']))]"

fun scan_keywords :: "ProductTypeEnum \<Rightarrow> string list \<Rightarrow> string \<Rightarrow> (ProductTypeEnum \<times> rat) option"
  where
  \<comment> \<open>the inner loop of \<open>extract_product_type\<close>; \<open>Some\<close> is its \<open>return\<close>\<close>
  "scan_keywords product [] normalized = None"
| "scan_keywords product (keyword # keywords) normalized =
     (if contains keyword normalized
      then (if keyword = normalized \<or> prefix keyword normalized
            then Some (product, 0.95)
            else Some (product, 0.85))
      else scan_keywords product keywords normalized)"

fun scan_products :: "(ProductTypeEnum \<times> string list) list \<Rightarrow> string \<Rightarrow> ProductTypeEnum \<times> rat"
  where
  "scan_products [] normalized = (UNKNOWN, 0.3)"
| "scan_products ((product, keywords) # rest) normalized =
     (case scan_keywords product keywords normalized of
        Some r \<Rightarrow> r
      | None \<Rightarrow> scan_products rest normalized)"

definition extract_product_type :: "string \<Rightarrow> ProductTypeEnum \<times> rat" where
  "extract_product_type query = scan_products PRODUCT_KEYWORDS (normalize_text query)"

fun floats_of :: "string list \<Rightarrow> error + rat list" where
  \<comment> \<open>\<open>float(match.replace(",", "").replace(".", ""))\<close> for each match, in order; the
      first failure is raised\<close>
  "floats_of [] = Inr []"
| "floats_of (m # ms) =
     (case py_float (remove_char CHR ''.'' (remove_char CHR '','' m)) of
        Inl e \<Rightarrow> Inl e
      | Inr v \<Rightarrow> (case floats_of ms of Inl e \<Rightarrow> Inl e | Inr vs \<Rightarrow> Inr (v # vs)))"

definition collect_prices :: "string \<Rightarrow> error + rat list" where
  \<comment> \<open>the loop over \<open>PRICE_PATTERNS\<close>: the list \<open>prices\<close> before deduplication\<close>
  "collect_prices query =
     floats_of (concat (map (\<lambda>p. findall p (normalize_text query)) PRICE_PATTERNS))"

definition extract_price_range :: "string \<Rightarrow> error + (PriceRange option \<times> rat)" where
  "extract_price_range query =
     (case collect_prices query of
        Inl e \<Rightarrow> Inl e
      | Inr found \<Rightarrow>
          if found = [] then Inr (None, 0)
          else
            (let prices = sort (remdups found)
             in if length prices = 1
                then (let max_p = prices ! 0; min_p = max_p * 0.7
                      in case PriceRange_init min_p max_p of
                           Inl e \<Rightarrow> Inl e
                         | Inr r \<Rightarrow> Inr (Some r, 0.75))
                else (case PriceRange_init (prices ! 0) (last prices) of
                        Inl e \<Rightarrow> Inl e
                      | Inr r \<Rightarrow> Inr (Some r, 0.85))))"

definition extract_usage_context :: "string \<Rightarrow> UsageContextEnum list \<times> rat" where
  \<comment> \<open>each context is appended at most once, so \<open>list(set(contexts))\<close> holds the same
      contexts; Python leaves their order open, the model keeps the order of the table\<close>
  "extract_usage_context query =
     (let normalized = normalize_text query;
          contexts = map fst (filter (\<lambda>(c, keywords). list_ex (\<lambda>k. contains k normalized) keywords)
                                     CONTEXT_KEYWORDS);
          confidences = map (\<lambda>c. (0.85 :: rat)) contexts
      in if contexts = [] then ([], 0)
         else (contexts, sum_list confidences / of_nat (length confidences)))"

definition extract_features :: "string \<Rightarrow> string list \<times> rat" where
  "extract_features query =
     (let normalized = normalize_text query;
          features = filter (\<lambda>feature. contains feature normalized) FEATURE_KEYWORDS
      in (features, if features \<noteq> [] then 0.8 else 0))"

definition parse :: "string \<Rightarrow> error + ParsedQuery" where
  "parse query =
     (let (ptype, product_conf) = extract_product_type query
      in case extract_price_range query of
           Inl e \<Rightarrow> Inl e
         | Inr (prange, price_conf) \<Rightarrow>
             (let (contexts, context_conf) = extract_usage_context query;
                  (features, feature_conf) = extract_features query;
                  confidences = [product_conf]
                                @ (if prange \<noteq> None then [price_conf] else [])
                                @ (if contexts \<noteq> [] then [context_conf] else [])
                                @ (if features \<noteq> [] then [feature_conf] else []);
                  avg_confidence = (if confidences \<noteq> []
                                    then sum_list confidences / of_nat (length confidences)
                                    else 0.5);
                  missing = (if ptype = UNKNOWN then [''product_type''] else [])
                            @ (if prange = None then [''price_range''] else [])
                            @ (if contexts = [] then [''usage_context''] else [])
                            @ (if features = [] then [''feature_preferences''] else [])
              in ParsedQuery_init ptype prange contexts features query avg_confidence
                   (length missing = 0) missing))"

section \<open>Ambiguity detector (ambiguity_detector.py)\<close>

fun FEATURE_SUGGESTIONS :: "ProductTypeEnum \<Rightarrow> string list option" where
  "FEATURE_SUGGESTIONS HEADPHONES =
     Some [''noise-cancelling'', ''waterproof'', ''long battery life'',
           ''lightweight'', ''wireless'', ''premium sound'']"
| "FEATURE_SUGGESTIONS EARBUDS =
     Some [''waterproof'', ''noise-cancelling'', ''wireless charging'',
           ''long battery'', ''transparent mode'', ''active noise'']"
| "FEATURE_SUGGESTIONS SPEAKERS =
     Some [''portable'', ''waterproof'', ''long battery'', ''bass boost'',
           ''wireless'', ''360 audio'']"
| "FEATURE_SUGGESTIONS LAPTOP =
     Some [''gaming'', ''lightweight'', ''long battery'', ''fast processor'',
           ''high resolution display'', ''touchscreen'']"
| "FEATURE_SUGGESTIONS p = None"

definition USAGE_SUGGESTIONS :: "UsageContextEnum list" where
  "USAGE_SUGGESTIONS = [GYM, OFFICE, HOME, OUTDOOR, TRAVEL, GAMING, PROFESSIONAL]"

definition detect_ambiguities :: "ParsedQuery \<Rightarrow> ClarificationRequest list" where
  "detect_ambiguities q =
     (if product_type q = UNKNOWN
      then [\<lparr>field_name = ''product_type'', field_label = ''Product Type'',
             current_value = None,
             options = Some (map product_value (filter (\<lambda>p. p \<noteq> UNKNOWN) all_products)),
             question = ''What type of product are you looking for?''\<rparr>]
      else [])
     @ (if price_range q = None
        then [\<lparr>field_name = ''price_range'', field_label = ''Budget'',
               current_value = None, options = None,
               question = ''What is your budget range (in rupees)?''\<rparr>]
        else [])
     @ (if usage_context q = []
        then [\<lparr>field_name = ''usage_context'', field_label = ''Usage Context'',
               current_value = None,
               options = Some (map context_value USAGE_SUGGESTIONS),
               question = ''Where will you primarily use this product?''\<rparr>]
        else [])
     @ (if feature_preferences q = []
        then [\<lparr>field_name = ''feature_preferences'', field_label = ''Features'',
               current_value = None,
               options = Some (case FEATURE_SUGGESTIONS (product_type q) of
                                 Some l \<Rightarrow> l
                               | None \<Rightarrow> [''high quality'', ''affordable'', ''durable'']),
               question = ''What features are important to you?''\<rparr>]
        else [])
     @ (if confidence_score q < 0.65
        then [\<lparr>field_name = ''general'', field_label = ''Query Clarity'',
               current_value = Some (''Confidence: '' @ fmt_pct1 (confidence_score q)),
               options = None,
               question = ''Could you provide more details? (Current parse confidence: ''
                          @ fmt_pct1 (confidence_score q) @ '')''\<rparr>]
        else [])"

definition is_ambiguous :: "ParsedQuery \<Rightarrow> bool" where
  "is_ambiguous q = (0 < length (detect_ambiguities q))"

section \<open>Interactive clarifier (validator.py)\<close>

text \<open>
  A response dictionary is an association list read with \<open>map_of\<close>. The clarifier
  updates the query object in place; the model returns the updated query.
\<close>

type_synonym responses = "(string \<times> string) list"

definition apply_response :: "ParsedQuery \<Rightarrow> ClarificationRequest \<Rightarrow> string \<Rightarrow> ParsedQuery" where
  \<comment> \<open>\<open>_apply_response\<close>; each handler keeps the query as it is when the conversion or
      the construction raises\<close>
  "apply_response query ambiguity response =
     (if field_name ambiguity = ''product_type''
      then (case ProductTypeEnum_of response of
              Inr p \<Rightarrow> query\<lparr>product_type := p\<rparr>
            | Inl e \<Rightarrow> query)
      else if field_name ambiguity = ''price_range''
      then (case py_float (remove_char CHR '','' response) of
              Inl e \<Rightarrow> query
            | Inr v \<Rightarrow> (case PriceRange_init (v * 0.7) v of
                         Inl e \<Rightarrow> query
                       | Inr r \<Rightarrow> query\<lparr>price_range := Some r\<rparr>))
      else if field_name ambiguity = ''usage_context''
      then (case find (\<lambda>c. context_value c = response) all_contexts of
              Some c \<Rightarrow> query\<lparr>usage_context := [c]\<rparr>
            | None \<Rightarrow> query)
      else if field_name ambiguity = ''feature_preferences''
      then query\<lparr>feature_preferences := map strip (split_on CHR '','' response)\<rparr>
      else query)"

fun clarify_loop ::
  "responses \<Rightarrow> ClarificationRequest list \<Rightarrow> ParsedQuery \<times> ClarificationRequest list
     \<Rightarrow> ParsedQuery \<times> ClarificationRequest list" where
  \<comment> \<open>the loop over the ambiguities; the state is the query and \<open>clarifications_made\<close>\<close>
  "clarify_loop user_responses [] st = st"
| "clarify_loop user_responses (ambiguity # rest) (query, made) =
     (case map_of user_responses (field_name ambiguity) of
        Some response \<Rightarrow>
          clarify_loop user_responses rest
            (apply_response query ambiguity response, made @ [ambiguity])
      | None \<Rightarrow> clarify_loop user_responses rest (query, made))"

definition clarify_query :: "ParsedQuery \<Rightarrow> responses option \<Rightarrow> NormalizedResult" where
  "clarify_query q user_responses =
     (let rs = (case user_responses of None \<Rightarrow> [] | Some l \<Rightarrow> l);
          ambiguities = detect_ambiguities q;
          (q', made) = clarify_loop rs ambiguities (q, [])
      in (validate_query q')\<lparr>clarifications_made := made\<rparr>)"

section \<open>Normalizer (normalizer.py)\<close>

definition truthy :: "responses option \<Rightarrow> bool" where
  \<comment> \<open>the truth value of \<open>user_responses\<close>: neither \<open>None\<close> nor empty\<close>
  "truthy user_responses = (case user_responses of None \<Rightarrow> False | Some l \<Rightarrow> l \<noteq> [])"

definition normalize_query :: "string \<Rightarrow> responses option \<Rightarrow> error + NormalizedResult" where
  \<comment> \<open>\<open>ProductQueryNormalizer.normalize\<close>\<close>
  "normalize_query query user_responses =
     (case parse query of
        Inl e \<Rightarrow> Inl e
      | Inr parsed \<Rightarrow>
          Inr (if truthy user_responses \<or> is_ambiguous parsed
               then clarify_query parsed user_responses
               else validate_query parsed))"

section \<open>Sample queries and predicates of the statements\<close>

definition laptop_query :: ParsedQuery where
  \<comment> \<open>what the parser returns for \<open>gaming laptop\<close>\<close>
  "laptop_query =
     \<lparr>product_type = LAPTOP, price_range = None, usage_context = [GAMING],
      feature_preferences = [], original_query = ''gaming laptop'',
      confidence_score = 0.85, is_complete = False,
      missing_fields = [''price_range'', ''feature_preferences'']\<rparr>"

definition mic_query :: ParsedQuery where
  \<comment> \<open>what the parser returns for \<open>mic $5 gym anc\<close>: no field is missing\<close>
  "mic_query =
     \<lparr>product_type = MICROPHONE, price_range = Some \<lparr>min_price = 3.5, max_price = 5\<rparr>,
      usage_context = [GYM], feature_preferences = [''anc''],
      original_query = ''mic $5 gym anc'', confidence_score = 0.8375, is_complete = True,
      missing_fields = []\<rparr>"

definition default_query :: ParsedQuery where
  \<comment> \<open>\<open>ParsedQuery(product_type=HEADPHONES, original_query="headphones")\<close>\<close>
  "default_query =
     \<lparr>product_type = HEADPHONES, price_range = None, usage_context = [],
      feature_preferences = [], original_query = ''headphones'', confidence_score = 0.5,
      is_complete = False, missing_fields = []\<rparr>"

definition PriceRange_ok :: "PriceRange \<Rightarrow> bool" where
  "PriceRange_ok p = (0 \<le> min_price p \<and> 0 \<le> max_price p \<and> min_price p \<le> max_price p)"

definition price_ok :: "PriceRange option \<Rightarrow> bool" where
  "price_ok pr = (case pr of None \<Rightarrow> True | Some p \<Rightarrow> PriceRange_ok p)"

definition price_answer :: "string \<Rightarrow> PriceRange option \<Rightarrow> PriceRange option" where
  \<comment> \<open>the price range after a response \<open>r\<close> to the budget question\<close>
  "price_answer r old =
     (case py_float (remove_char CHR '','' r) of
        Inl e \<Rightarrow> old
      | Inr v \<Rightarrow> if 0 \<le> v then Some \<lparr>min_price = v * 0.7, max_price = v\<rparr> else old)"

definition budget_request :: ClarificationRequest where
  \<comment> \<open>the request that the detector issues for a missing price range\<close>
  "budget_request =
     \<lparr>field_name = ''price_range'', field_label = ''Budget'', current_value = None,
      options = None, question = ''What is your budget range (in rupees)?''\<rparr>"


fun rx_chars :: "rx \<Rightarrow> char \<Rightarrow> bool" where
  \<comment> \<open>the characters that a match of the expression can contain\<close>
  "rx_chars (Lit w) c = (c \<in> set w)"
| "rx_chars Digit c = is_digit c"
| "rx_chars Space c = is_space c"
| "rx_chars (OneOf w) c = (c \<in> set w)"
| "rx_chars (Seq a b) c = (rx_chars a c \<or> rx_chars b c)"
| "rx_chars (Alt a b) c = (rx_chars a c \<or> rx_chars b c)"
| "rx_chars (Opt a) c = rx_chars a c"
| "rx_chars (Star a) c = rx_chars a c"

definition capture_ok :: "string \<Rightarrow> bool" where
  \<comment> \<open>what the group of a price pattern captures: a digit, then digits, commas and dots\<close>
  "capture_ok g =
     (case g of
        [] \<Rightarrow> False
      | c # cs \<Rightarrow> is_digit c \<and> list_all (\<lambda>x. is_digit x \<or> x = CHR '','' \<or> x = CHR ''.'') cs)"

section \<open>Properties of the data model\<close>

lemma PriceRange_init_eq:
  "PriceRange_init mn mx =
     (if 0 \<le> mn \<and> mn \<le> mx then Inr \<lparr>min_price = mn, max_price = mx\<rparr>
      else Inl ValidationError)"
  by (auto simp: PriceRange_init_def validate_max_price_def Let_def)

lemma ParsedQuery_init_Inr:
  "ParsedQuery_init pt pr uc fp oq cs ic mf = Inr pq \<Longrightarrow>
     pq = \<lparr>product_type = pt, price_range = pr, usage_context = uc,
           feature_preferences = fp, original_query = oq, confidence_score = cs,
           is_complete = ic, missing_fields = mf\<rparr> \<and> 0 \<le> cs \<and> cs \<le> 1"
  by (auto simp: ParsedQuery_init_def split: if_splits)

section \<open>Properties of the validator\<close>

lemma validate_price_range_ok_iff:
  "fst (validate_price_range (Some r)) =
     (0 \<le> min_price r \<and> min_price r \<le> max_price r
      \<and> (min_price r = 0 \<or> max_price r / min_price r \<le> 10))"
  by (auto simp: validate_price_range_def Let_def)


lemma parsed_query_validate [simp]: "parsed_query (validate_query q) = q"
  by (simp add: validate_query_def Let_def split: prod.splits)

lemma made_validate [simp]: "clarifications_made (validate_query q) = []"
  by (simp add: validate_query_def Let_def split: prod.splits)

text \<open>
  C1. The claim is that a range whose ratio \<open>max/min\<close> exceeds 10 gets a warning and
  is still accepted. The validator appends the message to \<open>errors\<close> and returns
  \<open>len(errors) == 0\<close>: the range from 1000 to 100000 that the tests call valid is
  rejected.
\<close>

theorem validate_price_range_wide_rejected:
  "validate_price_range (Some \<lparr>min_price = 1000, max_price = 100000\<rparr>) =
     (False, [''Price range too wide (ratio 100.0x). ''
              @ ''Consider narrowing your budget for better recommendations.''])"
  by code_simp

section \<open>Properties of the ambiguity detector\<close>



lemma mic_unambiguous: "detect_ambiguities mic_query = []"
  by (simp add: detect_ambiguities_def mic_query_def)

text \<open>
  C6. \<open>detect_ambiguities\<close> returns one request for each of the five rules that
  fires (unknown product type, no price range, no usage context, no features,
  confidence below 0.65), in this order and each on its own condition, and
  \<open>is_ambiguous\<close> holds exactly when one of the five conditions does.
\<close>

theorem detect_ambiguities_rules:
  "map field_name (detect_ambiguities q) =
     (if product_type q = UNKNOWN then [''product_type''] else [])
     @ (if price_range q = None then [''price_range''] else [])
     @ (if usage_context q = [] then [''usage_context''] else [])
     @ (if feature_preferences q = [] then [''feature_preferences''] else [])
     @ (if confidence_score q < 0.65 then [''general''] else [])
   \<and> length (detect_ambiguities q) =
       (if product_type q = UNKNOWN then 1 else 0)
       + (if price_range q = None then 1 else 0)
       + (if usage_context q = [] then 1 else 0)
       + (if feature_preferences q = [] then 1 else 0)
       + (if confidence_score q < 0.65 then 1 else 0)
   \<and> is_ambiguous q =
       (product_type q = UNKNOWN \<or> price_range q = None \<or> usage_context q = []
        \<or> feature_preferences q = [] \<or> confidence_score q < 0.65)"
  by (simp add: detect_ambiguities_def is_ambiguous_def)

section \<open>Properties of the parser\<close>

lemma parse_fields:
  assumes "parse query = Inr pq"
  shows "is_complete pq = (missing_fields pq = [])"
    and "0 \<le> confidence_score pq" and "confidence_score pq \<le> 1"
    and "\<exists>pc. extract_price_range query = Inr (price_range pq, pc)"
    and "product_type pq = fst (extract_product_type query)"
    and "original_query pq = query"
  using assms
  by (auto simp: parse_def Let_def split: prod.splits sum.splits dest!: ParsedQuery_init_Inr)

lemma parse_gaming_laptop: "parse ''gaming laptop'' = Inr laptop_query"
  by code_simp

lemma parse_mic: "parse ''mic $5 gym anc'' = Inr mic_query"
  by code_simp

subsection \<open>The product type\<close>







subsection \<open>What the price patterns capture\<close>

lemma rx_ends_consumed:
  "r \<in> set (rx_ends a s) \<Longrightarrow> \<exists>w. s = w @ r \<and> list_all (rx_chars a) w"
proof (induction a s arbitrary: r rule: rx_ends.induct)
  case (1 w s)
  then have "prefix w s" and "r = drop (length w) s"
    by (auto split: if_splits)
  then have "s = w @ r"
    by (auto simp: prefix_def)
  then show ?case
    by (auto simp: list_all_iff)
next
  case (2 s)
  then show ?case
    by (cases s) (auto split: if_splits)
next
  case (3 s)
  then show ?case
    by (cases s) (auto split: if_splits)
next
  case (4 w s)
  then show ?case
    by (cases s) (auto split: if_splits)
next
  case (5 a b s)
  from "5.prems" obtain r1 where r1: "r1 \<in> set (rx_ends a s)" and r: "r \<in> set (rx_ends b r1)"
    by auto
  from "5.IH"(1) [OF r1] obtain w1 where w1: "s = w1 @ r1" "list_all (rx_chars a) w1"
    by blast
  from "5.IH"(2) [OF r1 r] obtain w2 where w2: "r1 = w2 @ r" "list_all (rx_chars b) w2"
    by blast
  from w1 w2 have "s = (w1 @ w2) @ r \<and> list_all (rx_chars (Seq a b)) (w1 @ w2)"
    by (auto simp: list_all_iff)
  then show ?case by blast
next
  case (6 a b s)
  from "6.prems" consider "r \<in> set (rx_ends a s)" | "r \<in> set (rx_ends b s)"
    by auto
  then show ?case
  proof cases
    case 1
    from "6.IH"(1) [OF 1] show ?thesis by (auto simp: list_all_iff)
  next
    case 2
    from "6.IH"(2) [OF 2] show ?thesis by (auto simp: list_all_iff)
  qed
next
  case (7 a s)
  from "7.prems" consider "r \<in> set (rx_ends a s)" | "r = s"
    by auto
  then show ?case
  proof cases
    case 1
    from "7.IH" [OF 1] show ?thesis by (auto simp: list_all_iff)
  next
    case 2
    then show ?thesis by simp
  qed
next
  case (8 a s)
  from "8.prems" consider
      r1 where "r1 \<in> set (rx_ends a s)" "length r1 < length s" "r \<in> set (rx_ends (Star a) r1)"
    | "r = s"
    by (subst (asm) rx_ends.simps(8)) (auto split: if_splits)
  then show ?case
  proof cases
    case 1
    from "8.IH"(1) [OF 1(1)] obtain w1 where w1: "s = w1 @ r1" "list_all (rx_chars a) w1"
      by blast
    from "8.IH"(2) [OF 1(1) 1(2) 1(3)] obtain w2
      where w2: "r1 = w2 @ r" "list_all (rx_chars (Star a)) w2"
      by blast
    from w1 w2 have "s = (w1 @ w2) @ r \<and> list_all (rx_chars (Star a)) (w1 @ w2)"
      by (auto simp: list_all_iff)
    then show ?thesis by blast
  next
    case 2
    then show ?thesis by simp
  qed
qed

lemma rx_number_capture:
  assumes "r2 \<in> set (rx_ends rx_number r1)"
  shows "\<exists>w. r1 = w @ r2 \<and> capture_ok w"
proof -
  let ?Y = "Star (Seq (Opt (OneOf '',.'')) (Seq Digit (Seq Digit Digit)))"
  from assms obtain c cs where r1: "r1 = c # cs" and c: "is_digit c"
    and r2: "r2 \<in> set (rx_ends (Seq (Star Digit) ?Y) cs)"
    by (cases r1) (auto simp: rx_number_def rx_plus_def split: if_splits)
  from rx_ends_consumed [OF r2] obtain w
    where w: "cs = w @ r2" "list_all (rx_chars (Seq (Star Digit) ?Y)) w"
    by blast
  from w(2) have "list_all (\<lambda>x. is_digit x \<or> x = CHR '','' \<or> x = CHR ''.'') w"
    by (auto simp: list_all_iff)
  with r1 c w(1) have "r1 = (c # w) @ r2 \<and> capture_ok (c # w)"
    by (simp add: capture_ok_def)
  then show ?thesis by blast
qed

lemma rx_match_capture:
  assumes "fst (snd p) = rx_number" and "rx_match p s = Some (g, r)"
  shows "capture_ok g"
proof -
  obtain pre suf where p: "p = (pre, rx_number, suf)"
    using assms(1) by (cases p) auto
  define L where "L = concat (map (\<lambda>r1. concat (map (\<lambda>r2. map (\<lambda>r3. (take (length r1 - length r2) r1, r3))
                                                     (rx_ends suf r2))
                                          (rx_ends rx_number r1)))
                          (rx_ends pre s))"
  from assms(2) p obtain ms where "L = (g, r) # ms"
    by (simp add: rx_match_def L_def split: list.splits)
  then have "(g, r) \<in> set L"
    by simp
  then obtain r1 r2 where "r2 \<in> set (rx_ends rx_number r1)"
    and g: "g = take (length r1 - length r2) r1"
    unfolding L_def by auto
  from rx_number_capture [OF this(1)] g show ?thesis
    by auto
qed

lemma findall_capture:
  "fst (snd p) = rx_number \<Longrightarrow> g \<in> set (findall p s) \<Longrightarrow> capture_ok g"
proof (induction p s rule: findall.induct)
  case (1 p s)
  show ?case
  proof (cases "rx_match p s")
    case None
    with "1.prems" "1.IH"(1) show ?thesis
      by (subst (asm) findall.simps) (auto split: list.splits)
  next
    case (Some m)
    obtain g' r where m: "m = (g', r)" by (cases m)
    from Some m "1.prems"(1) have ok: "capture_ok g'"
      by (auto dest: rx_match_capture)
    from "1.prems"(2) Some m consider "g = g'"
      | "length r < length s" "g \<in> set (findall p r)"
      | c cs where "\<not> length r < length s" "s = c # cs" "g \<in> set (findall p cs)"
      by (subst (asm) findall.simps) (auto split: list.splits if_splits)
    then show ?thesis
    proof cases
      case 1
      with ok show ?thesis by simp
    next
      case 2
      with "1.IH"(2) "1.prems"(1) Some m show ?thesis by auto
    next
      case 3
      with "1.IH"(3) "1.prems"(1) Some m show ?thesis by auto
    qed
  qed
qed

lemma price_patterns_group: "p \<in> set PRICE_PATTERNS \<Longrightarrow> fst (snd p) = rx_number"
  by (auto simp: PRICE_PATTERNS_def)

lemma price_matches_capture:
  "g \<in> set (concat (map (\<lambda>p. findall p s) PRICE_PATTERNS)) \<Longrightarrow> capture_ok g"
  by (auto dest: price_patterns_group findall_capture)

lemma digit_not_space: "is_digit c \<Longrightarrow> \<not> is_space c"
  by (auto simp: is_digit_def is_space_def Let_def)

lemma digit_not_sign: "is_digit c \<Longrightarrow> c \<noteq> CHR ''-'' \<and> c \<noteq> CHR ''+''"
  by (auto simp: is_digit_def)

lemma digit_value: "is_digit c \<Longrightarrow> 0 \<le> (of_char c :: int) - 48"
proof -
  assume "is_digit c"
  then have "48 \<le> (of_char c :: nat)"
    by (simp add: is_digit_def)
  moreover have "(of_char c :: int) = int (of_char c)"
    by (simp only: of_nat_of_char)
  ultimately show ?thesis
    by linarith
qed

lemma digitpart_digits:
  "list_all is_digit ds \<Longrightarrow> 0 \<le> v \<Longrightarrow>
     \<exists>v'. digitpart v n ds = (v', n + length ds, []) \<and> 0 \<le> v'"
proof (induction ds arbitrary: v n)
  case Nil
  then show ?case by simp
next
  case (Cons d ds)
  from Cons.prems have d: "is_digit d" and ds: "list_all is_digit ds"
    by simp_all
  from d Cons.prems(2) have "0 \<le> 10 * v + (of_char d - 48)"
    using digit_value [OF d] by simp
  from Cons.IH [OF ds this, of "Suc n"] d show ?case
    by simp
qed

lemma strip_digits:
  assumes "ds \<noteq> []" and "list_all is_digit ds"
  shows "strip ds = ds"
proof -
  from assms have "\<not> is_space (hd ds)"
    by (cases ds) (auto simp: digit_not_space)
  with assms(1) have 1: "dropWhile is_space ds = ds"
    by (cases ds) auto
  from assms have "\<not> is_space (last ds)"
    by (auto simp: list_all_iff digit_not_space)
  with assms(1) have "dropWhile is_space (rev ds) = rev ds"
    by (cases "rev ds") (auto simp: last_rev [symmetric] hd_rev)
  with 1 show ?thesis
    by (simp add: strip_def)
qed

lemma py_float_digits:
  assumes "ds \<noteq> []" and "list_all is_digit ds"
  shows "\<exists>v. py_float ds = Inr v \<and> 0 \<le> v"
proof -
  from assms obtain d ds' where ds: "ds = d # ds'" and d: "is_digit d"
    by (cases ds) auto
  have sign: "py_sign ds = (False, ds)"
    using digit_not_sign [OF d] by (simp add: py_sign_def ds)
  from digitpart_digits [OF assms(2), of 0 0] obtain v'
    where v': "digitpart 0 0 ds = (v', length ds, [])" "0 \<le> v'"
    by auto
  from assms(1) have "length ds \<noteq> 0" by simp
  with v' sign have "py_float ds = Inr (of_int v')"
    by (simp add: py_float_def strip_digits [OF assms] py_exponent_def)
  with v'(2) show ?thesis by simp
qed

lemma clean_capture:
  assumes "capture_ok g"
  shows "remove_char CHR ''.'' (remove_char CHR '','' g) \<noteq> []
       \<and> list_all is_digit (remove_char CHR ''.'' (remove_char CHR '','' g))"
proof -
  from assms obtain c cs where g: "g = c # cs" and c: "is_digit c"
    and cs: "list_all (\<lambda>x. is_digit x \<or> x = CHR '','' \<or> x = CHR ''.'') cs"
    by (cases g) (auto simp: capture_ok_def)
  have "c \<noteq> CHR '',''" "c \<noteq> CHR ''.''"
    using c by (auto simp: is_digit_def)
  with g c cs show ?thesis
    by (auto simp: remove_char_def list_all_iff)
qed

lemma floats_of_captures:
  "list_all capture_ok ms \<Longrightarrow> \<exists>vs. floats_of ms = Inr vs \<and> list_all (\<lambda>v. 0 \<le> v) vs"
proof (induction ms)
  case Nil
  then show ?case by simp
next
  case (Cons m ms)
  from Cons.prems have m: "capture_ok m" and ms: "list_all capture_ok ms"
    by simp_all
  from clean_capture [OF m] py_float_digits obtain v
    where v: "py_float (remove_char CHR ''.'' (remove_char CHR '','' m)) = Inr v" "0 \<le> v"
    by blast
  from Cons.IH [OF ms] obtain vs where "floats_of ms = Inr vs" "list_all (\<lambda>v. 0 \<le> v) vs"
    by blast
  with v show ?case by simp
qed

lemma collect_prices_total:
  "\<exists>found. collect_prices query = Inr found \<and> list_all (\<lambda>v. 0 \<le> v) found"
proof -
  have "\<forall>g \<in> set (concat (map (\<lambda>p. findall p (normalize_text query)) PRICE_PATTERNS)).
          capture_ok g"
    using price_matches_capture by blast
  then have "list_all capture_ok
               (concat (map (\<lambda>p. findall p (normalize_text query)) PRICE_PATTERNS))"
    unfolding list_all_iff .
  then show ?thesis
    unfolding collect_prices_def by (rule floats_of_captures)
qed

lemma collect_prices_nonneg:
  "collect_prices query = Inr found \<Longrightarrow> v \<in> set found \<Longrightarrow> 0 \<le> v"
  using collect_prices_total [of query] by (auto simp: list_all_iff)

subsection \<open>The price range\<close>

lemma sorted_nth0_Min:
  assumes "sorted xs" and "xs \<noteq> []"
  shows "xs ! 0 = Min (set xs)"
proof -
  from assms obtain y ys where xs: "xs = y # ys" by (cases xs) auto
  with assms(1) have "\<forall>z \<in> set xs. y \<le> z" by auto
  then have "Min (set xs) = y"
    by (intro Min_eqI) (auto simp: xs)
  with xs show ?thesis by simp
qed

lemma sorted_last_Max:
  assumes "sorted xs" and "xs \<noteq> []"
  shows "last xs = Max (set xs)"
proof -
  from assms have "\<forall>z \<in> set xs. z \<le> last xs"
  proof (induction xs)
    case Nil
    then show ?case by simp
  next
    case (Cons a xs)
    then show ?case by (cases xs) auto
  qed
  then have "Max (set xs) = last xs"
    using assms(2) by (intro Max_eqI) auto
  then show ?thesis by simp
qed

lemma sort_remdups_single:
  assumes "set found = {v}"
  shows "sort (remdups found) = [v]"
proof -
  have "length (remdups found) = 1"
    using assms by (simp add: length_remdups_card_conv)
  then obtain x where x: "remdups found = [x]"
    by (cases "remdups found") auto
  then have "set found = {x}"
    by (metis list.simps(15) empty_set set_remdups)
  with assms x show ?thesis by simp
qed

lemma sort_remdups_many:
  assumes "2 \<le> card (set found)"
  shows "length (sort (remdups found)) \<noteq> 1"
    and "sort (remdups found) ! 0 = Min (set found)"
    and "last (sort (remdups found)) = Max (set found)"
proof -
  let ?xs = "sort (remdups found)"
  have len: "length ?xs = card (set found)"
    by (simp add: length_remdups_card_conv)
  with assms show "length ?xs \<noteq> 1" by simp
  from len assms have "length ?xs \<noteq> 0" by linarith
  then have ne: "?xs \<noteq> []" by (simp only: length_0_conv not_False_eq_True)
  have s: "sorted ?xs" by simp
  from sorted_nth0_Min [OF s ne] show "?xs ! 0 = Min (set found)" by simp
  from sorted_last_Max [OF s ne] show "last ?xs = Max (set found)" by simp
qed

lemma extract_single_price:
  assumes "collect_prices query = Inr found" and "set found = {v}"
  shows "extract_price_range query =
           Inr (Some \<lparr>min_price = 0.7 * v, max_price = v\<rparr>, 0.75)"
proof -
  from assms have "0 \<le> v"
    using collect_prices_nonneg [of query found v] by simp
  moreover from assms(2) have "found \<noteq> []" by auto
  ultimately show ?thesis
    using assms(1) sort_remdups_single [OF assms(2)]
    by (simp add: extract_price_range_def PriceRange_init_eq)
qed

lemma extract_many_prices:
  assumes "collect_prices query = Inr found" and "2 \<le> card (set found)"
  shows "extract_price_range query =
           Inr (Some \<lparr>min_price = Min (set found), max_price = Max (set found)\<rparr>, 0.85)"
proof -
  from assms(2) have ne: "found \<noteq> []" by auto
  then have fin: "finite (set found)" "set found \<noteq> {}" by auto
  have "Min (set found) \<in> set found"
    using fin by (intro Min_in)
  then have 0: "0 \<le> Min (set found)"
    using collect_prices_nonneg [OF assms(1)] by blast
  have le: "Min (set found) \<le> Max (set found)"
    using fin by (intro Min_le Max_in)
  show ?thesis
    using assms(1) ne 0 le sort_remdups_many [OF assms(2)]
    by (simp add: extract_price_range_def PriceRange_init_eq Let_def)
qed

subsection \<open>The parser returns a query\<close>

lemma avg_bounds:
  fixes xs :: "rat list"
  assumes "xs \<noteq> []" and "list_all (\<lambda>x. 0 \<le> x \<and> x \<le> 1) xs"
  shows "0 \<le> sum_list xs / of_nat (length xs) \<and> sum_list xs / of_nat (length xs) \<le> 1"
proof -
  from assms(2) have "0 \<le> sum_list xs \<and> sum_list xs \<le> of_nat (length xs)"
    by (induction xs) auto
  moreover from assms(1) have "0 < (of_nat (length xs) :: rat)"
    by simp
  ultimately show ?thesis
    by (simp add: divide_le_eq)
qed

lemma scan_keywords_conf:
  "scan_keywords p ks n = Some (p', c) \<Longrightarrow> 0 \<le> c \<and> c \<le> 1"
  by (induction ks) (auto split: if_splits)

lemma scan_products_conf:
  "scan_products tbl n = (p, c) \<Longrightarrow> 0 \<le> c \<and> c \<le> 1"
proof (induction tbl)
  case Nil
  then show ?case by auto
next
  case (Cons e tbl)
  obtain p' ks where e: "e = (p', ks)" by (cases e)
  from Cons show ?case
    by (auto simp: e split: option.splits dest: scan_keywords_conf)
qed

lemma extract_product_type_conf:
  "extract_product_type query = (p, c) \<Longrightarrow> 0 \<le> c \<and> c \<le> 1"
  unfolding extract_product_type_def by (rule scan_products_conf)

lemma PriceRange_init_ok: "PriceRange_init mn mx = Inr p \<Longrightarrow> PriceRange_ok p"
  by (auto simp: PriceRange_init_eq PriceRange_ok_def split: if_splits)

lemma extract_price_range_total:
  "\<exists>pr c. extract_price_range query = Inr (pr, c) \<and> price_ok pr \<and> 0 \<le> c \<and> c \<le> 1"
proof -
  from collect_prices_total obtain found
    where f: "collect_prices query = Inr found" "list_all (\<lambda>v. 0 \<le> v) found"
    by blast
  show ?thesis
  proof (cases "found = []")
    case True
    with f show ?thesis
      by (simp add: extract_price_range_def price_ok_def)
  next
    case False
    have "card (set found) \<noteq> 0"
      using False by simp
    then consider "card (set found) = 1" | "2 \<le> card (set found)"
      by linarith
    then show ?thesis
    proof cases
      case 1
      then obtain v where v: "set found = {v}"
        by (auto simp: card_1_singleton_iff)
      with f(2) have "0 \<le> v" by (auto simp: list_all_iff)
      then have "price_ok (Some \<lparr>min_price = 0.7 * v, max_price = v\<rparr>)"
        by (simp add: price_ok_def PriceRange_ok_def)
      with extract_single_price [OF f(1) v] show ?thesis
        by (intro exI [of _ "Some \<lparr>min_price = 0.7 * v, max_price = v\<rparr>"] exI [of _ "0.75"])
           simp
    next
      case 2
      have fin: "finite (set found)" "set found \<noteq> {}" using False by auto
      have "Min (set found) \<in> set found" using fin by (intro Min_in)
      with f(2) have "0 \<le> Min (set found)" by (auto simp: list_all_iff)
      moreover have "Min (set found) \<le> Max (set found)"
        using fin by (intro Min_le Max_in)
      ultimately have
        "price_ok (Some \<lparr>min_price = Min (set found), max_price = Max (set found)\<rparr>)"
        by (simp add: price_ok_def PriceRange_ok_def)
      with extract_many_prices [OF f(1) 2] show ?thesis
        by (intro exI [of _ "Some \<lparr>min_price = Min (set found), max_price = Max (set found)\<rparr>"]
              exI [of _ "0.85"])
           simp
    qed
  qed
qed

lemma extract_usage_context_conf:
  assumes "extract_usage_context query = (cs, c)"
  shows "0 \<le> c \<and> c \<le> 1"
proof -
  define ctx where "ctx = map fst (filter (\<lambda>(c, keywords).
      list_ex (\<lambda>k. contains k (normalize_text query)) keywords) CONTEXT_KEYWORDS)"
  define confs where "confs = map (\<lambda>c. (0.85 :: rat)) ctx"
  from assms have c: "c = (if ctx = [] then 0 else sum_list confs / of_nat (length confs))"
    unfolding extract_usage_context_def Let_def ctx_def [symmetric] confs_def [symmetric]
    by (simp split: if_splits)
  show ?thesis
  proof (cases "ctx = []")
    case True
    with c show ?thesis by simp
  next
    case False
    then have "confs \<noteq> []" by (simp add: confs_def)
    moreover have "list_all (\<lambda>x. 0 \<le> x \<and> x \<le> 1) confs"
      by (simp add: confs_def list_all_iff)
    ultimately show ?thesis
      using avg_bounds [of confs] c False by simp
  qed
qed

lemma extract_features_conf:
  "extract_features query = (fs, c) \<Longrightarrow> 0 \<le> c \<and> c \<le> 1"
  by (auto simp: extract_features_def Let_def split: if_splits)

lemma parse_total: "\<exists>pq. parse query = Inr pq"
proof -
  obtain pt pc where p: "extract_product_type query = (pt, pc)"
    by (cases "extract_product_type query")
  obtain pr rc where r: "extract_price_range query = Inr (pr, rc)" "0 \<le> rc" "rc \<le> 1"
    using extract_price_range_total by blast
  obtain cs cc where c: "extract_usage_context query = (cs, cc)"
    by (cases "extract_usage_context query")
  obtain fs fc where f: "extract_features query = (fs, fc)"
    by (cases "extract_features query")
  define confs where "confs = [pc] @ (if pr \<noteq> None then [rc] else [])
      @ (if cs \<noteq> [] then [cc] else []) @ (if fs \<noteq> [] then [fc] else [])"
  have "list_all (\<lambda>x. 0 \<le> x \<and> x \<le> 1) confs"
    using extract_product_type_conf [OF p] r(2,3) extract_usage_context_conf [OF c]
      extract_features_conf [OF f]
    by (simp add: confs_def)
  moreover have "confs \<noteq> []"
    by (simp add: confs_def)
  ultimately have "0 \<le> sum_list confs / of_nat (length confs)
      \<and> sum_list confs / of_nat (length confs) \<le> 1"
    by (intro avg_bounds)
  with \<open>confs \<noteq> []\<close> show ?thesis
    unfolding parse_def p r(1) c f
    apply (simp only: Let_def split_conv sum.case)
    apply (fold confs_def)
    apply (simp add: ParsedQuery_init_def)
    done
qed

lemma parse_price_range:
  "extract_price_range query = Inr (pr, c) \<Longrightarrow> \<exists>pq. parse query = Inr pq \<and> price_range pq = pr"
  using parse_total [of query] parse_fields(4) [of query] by fastforce





section \<open>Properties of the clarifier\<close>

lemma apply_response_frame:
  "missing_fields (apply_response q a r) = missing_fields q"
  "is_complete (apply_response q a r) = is_complete q"
  "confidence_score (apply_response q a r) = confidence_score q"
  "original_query (apply_response q a r) = original_query q"
  by (simp_all add: apply_response_def split: sum.splits option.splits)

lemma apply_response_other_field:
  "field_name a \<noteq> ''product_type'' \<Longrightarrow> product_type (apply_response q a r) = product_type q"
  "field_name a \<noteq> ''price_range'' \<Longrightarrow> price_range (apply_response q a r) = price_range q"
  "field_name a \<noteq> ''usage_context'' \<Longrightarrow> usage_context (apply_response q a r) = usage_context q"
  "field_name a \<noteq> ''feature_preferences'' \<Longrightarrow>
     feature_preferences (apply_response q a r) = feature_preferences q"
  by (simp_all add: apply_response_def split: sum.splits option.splits)

lemma clarify_loop_frame:
  "missing_fields (fst (clarify_loop rs ambs (q, made))) = missing_fields q"
  "is_complete (fst (clarify_loop rs ambs (q, made))) = is_complete q"
  "confidence_score (fst (clarify_loop rs ambs (q, made))) = confidence_score q"
  "original_query (fst (clarify_loop rs ambs (q, made))) = original_query q"
  by (induction ambs arbitrary: q made; simp add: apply_response_frame split: option.splits)+

lemma clarify_loop_product_type:
  "''product_type'' \<notin> field_name ` set ambs \<Longrightarrow>
     product_type (fst (clarify_loop rs ambs (q, made))) = product_type q"
  by (induction ambs arbitrary: q made)
     (auto simp: apply_response_other_field split: option.splits)

lemma clarify_loop_price_range:
  "''price_range'' \<notin> field_name ` set ambs \<Longrightarrow>
     price_range (fst (clarify_loop rs ambs (q, made))) = price_range q"
  by (induction ambs arbitrary: q made)
     (auto simp: apply_response_other_field split: option.splits)

lemma clarify_loop_usage_context:
  "''usage_context'' \<notin> field_name ` set ambs \<Longrightarrow>
     usage_context (fst (clarify_loop rs ambs (q, made))) = usage_context q"
  by (induction ambs arbitrary: q made)
     (auto simp: apply_response_other_field split: option.splits)

lemma clarify_loop_feature_preferences:
  "''feature_preferences'' \<notin> field_name ` set ambs \<Longrightarrow>
     feature_preferences (fst (clarify_loop rs ambs (q, made))) = feature_preferences q"
  by (induction ambs arbitrary: q made)
     (auto simp: apply_response_other_field split: option.splits)

lemma clarify_loop_made:
  "snd (clarify_loop rs ambs (q, made)) =
     made @ filter (\<lambda>a. map_of rs (field_name a) \<noteq> None) ambs"
  by (induction ambs arbitrary: q made) (auto split: option.splits)

lemma parsed_query_clarify:
  "parsed_query (clarify_query q rs) =
     fst (clarify_loop (case rs of None \<Rightarrow> [] | Some l \<Rightarrow> l) (detect_ambiguities q) (q, []))"
  by (simp add: clarify_query_def Let_def split: prod.splits)

lemma made_clarify:
  "clarifications_made (clarify_query q rs) =
     snd (clarify_loop (case rs of None \<Rightarrow> [] | Some l \<Rightarrow> l) (detect_ambiguities q) (q, []))"
  by (simp add: clarify_query_def Let_def split: prod.splits)

lemma clarify_unambiguous:
  "detect_ambiguities q = [] \<Longrightarrow> clarify_query q rs = validate_query q"
  by (simp add: clarify_query_def Let_def validate_query_def split: prod.splits)




lemma apply_response_price:
  "field_name a = ''price_range'' \<Longrightarrow>
     apply_response q a r = q\<lparr>price_range := price_answer r (price_range q)\<rparr>"
  by (simp add: apply_response_def price_answer_def PriceRange_init_eq split: sum.splits)





text \<open>
  C10. Applying clarification responses never changes \<open>missing_fields\<close>,
  \<open>is_complete\<close> or \<open>confidence_score\<close>: the query in the result of
  \<open>clarify_query\<close> carries the three values of the query it was given.
\<close>

theorem clarification_keeps_parse_metadata:
  "missing_fields (parsed_query (clarify_query q rs)) = missing_fields q
   \<and> is_complete (parsed_query (clarify_query q rs)) = is_complete q
   \<and> confidence_score (parsed_query (clarify_query q rs)) = confidence_score q"
  by (simp add: parsed_query_clarify clarify_loop_frame)

text \<open>
  An instance: the response 75000 fills the price range of \<open>gaming laptop\<close>, and the
  result still lists \<open>price_range\<close> as missing and is still incomplete.
\<close>

theorem clarification_keeps_parse_metadata_witness:
  "price_range laptop_query = None
   \<and> price_range (parsed_query (clarify_query laptop_query (Some [(''price_range'', ''75000'')])))
      = Some \<lparr>min_price = 52500, max_price = 75000\<rparr>
   \<and> missing_fields (parsed_query (clarify_query laptop_query (Some [(''price_range'', ''75000'')])))
      = [''price_range'', ''feature_preferences'']
   \<and> is_complete (parsed_query (clarify_query laptop_query (Some [(''price_range'', ''75000'')])))
      = False
   \<and> confidence_score
        (parsed_query (clarify_query laptop_query (Some [(''price_range'', ''75000'')])))
      = 0.85"
proof -
  have "price_range (parsed_query (clarify_query laptop_query (Some [(''price_range'', ''75000'')])))
      = Some \<lparr>min_price = 52500, max_price = 75000\<rparr>"
    by code_simp
  then show ?thesis
    using clarification_keeps_parse_metadata
      [of laptop_query "Some [(''price_range'', ''75000'')]"]
    by (simp add: laptop_query_def)
qed

section \<open>Properties of the normalizer\<close>

lemma normalize_Inr:
  "normalize_query query rs = Inr res \<Longrightarrow>
     \<exists>pq. parse query = Inr pq
          \<and> (res = clarify_query pq rs \<or> res = validate_query pq)"
  by (cases "parse query") (simp_all add: normalize_query_def split: if_splits)

lemma normalize_parsed_frame:
  assumes "normalize_query query rs = Inr res"
  shows "\<exists>pq. parse query = Inr pq
           \<and> missing_fields (parsed_query res) = missing_fields pq
           \<and> is_complete (parsed_query res) = is_complete pq
           \<and> confidence_score (parsed_query res) = confidence_score pq"
proof -
  from assms obtain p where p: "parse query = Inr p"
    and r: "res = clarify_query p rs \<or> res = validate_query p"
    by (drule_tac normalize_Inr) (elim exE conjE)
  from r have "missing_fields (parsed_query res) = missing_fields p
           \<and> is_complete (parsed_query res) = is_complete p
           \<and> confidence_score (parsed_query res) = confidence_score p"
    by (elim disjE) (simp_all add: parsed_query_clarify clarify_loop_frame)
  with p show ?thesis by (intro exI [of _ p]) simp
qed

text \<open>
  C8. A field whose question is not among the ambiguities detected on the query keeps
  its value whatever the responses say; the clarifications recorded are the detected
  ambiguities that have a response; and when the parse of a query is not ambiguous,
  normalizing it with any responses gives what the validator gives on the parse.
\<close>

theorem clarify_only_detected:
  "(''product_type'' \<notin> set (map field_name (detect_ambiguities q))
      \<longrightarrow> product_type (parsed_query (clarify_query q rs)) = product_type q)
   \<and> (''price_range'' \<notin> set (map field_name (detect_ambiguities q))
      \<longrightarrow> price_range (parsed_query (clarify_query q rs)) = price_range q)
   \<and> (''usage_context'' \<notin> set (map field_name (detect_ambiguities q))
      \<longrightarrow> usage_context (parsed_query (clarify_query q rs)) = usage_context q)
   \<and> (''feature_preferences'' \<notin> set (map field_name (detect_ambiguities q))
      \<longrightarrow> feature_preferences (parsed_query (clarify_query q rs)) = feature_preferences q)
   \<and> clarifications_made (clarify_query q rs) =
       filter (\<lambda>a. map_of (case rs of None \<Rightarrow> [] | Some l \<Rightarrow> l) (field_name a) \<noteq> None)
         (detect_ambiguities q)
   \<and> (parse query = Inr pq \<longrightarrow> \<not> is_ambiguous pq
      \<longrightarrow> normalize_query query rs = Inr (validate_query pq))"
  by (simp add: parsed_query_clarify made_clarify clarify_loop_made clarify_loop_product_type
      clarify_loop_price_range clarify_loop_usage_context clarify_loop_feature_preferences
      normalize_query_def is_ambiguous_def clarify_unambiguous)

theorem clarify_only_detected_witness:
  "''product_type'' \<notin> set (map field_name (detect_ambiguities mic_query))
   \<and> ''price_range'' \<notin> set (map field_name (detect_ambiguities mic_query))
   \<and> ''usage_context'' \<notin> set (map field_name (detect_ambiguities mic_query))
   \<and> ''feature_preferences'' \<notin> set (map field_name (detect_ambiguities mic_query))
   \<and> parse ''mic $5 gym anc'' = Inr mic_query
   \<and> \<not> is_ambiguous mic_query
   \<and> product_type (parsed_query (clarify_query mic_query
        (Some [(''product_type'', ''phone''), (''price_range'', ''100''),
               (''usage_context'', ''home''), (''feature_preferences'', ''wired'')])))
      = MICROPHONE
   \<and> price_range (parsed_query (clarify_query mic_query
        (Some [(''product_type'', ''phone''), (''price_range'', ''100''),
               (''usage_context'', ''home''), (''feature_preferences'', ''wired'')])))
      = Some \<lparr>min_price = 3.5, max_price = 5\<rparr>
   \<and> usage_context (parsed_query (clarify_query mic_query
        (Some [(''product_type'', ''phone''), (''price_range'', ''100''),
               (''usage_context'', ''home''), (''feature_preferences'', ''wired'')])))
      = [GYM]
   \<and> feature_preferences (parsed_query (clarify_query mic_query
        (Some [(''product_type'', ''phone''), (''price_range'', ''100''),
               (''usage_context'', ''home''), (''feature_preferences'', ''wired'')])))
      = [''anc'']
   \<and> clarifications_made (clarify_query mic_query
        (Some [(''product_type'', ''phone''), (''price_range'', ''100''),
               (''usage_context'', ''home''), (''feature_preferences'', ''wired'')]))
      = []
   \<and> normalize_query ''mic $5 gym anc''
        (Some [(''product_type'', ''phone''), (''price_range'', ''100''),
               (''usage_context'', ''home''), (''feature_preferences'', ''wired'')])
      = Inr (validate_query mic_query)"
  using clarify_only_detected [of mic_query
      "Some [(''product_type'', ''phone''), (''price_range'', ''100''),
             (''usage_context'', ''home''), (''feature_preferences'', ''wired'')]"
      "''mic $5 gym anc''" mic_query]
    parse_mic mic_unambiguous
  by (simp add: is_ambiguous_def) (simp add: mic_query_def)

text \<open>
  C9, as amended. For every query that the parser returns, and for the query inside
  every result of \<open>normalize_query\<close>, \<open>is_complete\<close> holds exactly when
  \<open>missing_fields\<close> is empty.
\<close>

theorem parser_is_complete_iff:
  "(parse query = Inr pq \<longrightarrow> is_complete pq = (missing_fields pq = []))
   \<and> (normalize_query query rs = Inr res \<longrightarrow>
        is_complete (parsed_query res) = (missing_fields (parsed_query res) = []))"
proof (intro conjI impI)
  assume "parse query = Inr pq"
  then show "is_complete pq = (missing_fields pq = [])"
    by (rule parse_fields)
next
  assume "normalize_query query rs = Inr res"
  then obtain p where p: "parse query = Inr p"
    and m: "missing_fields (parsed_query res) = missing_fields p"
    and c: "is_complete (parsed_query res) = is_complete p"
    by (drule_tac normalize_parsed_frame) (elim exE conjE)
  from p have "is_complete p = (missing_fields p = [])"
    by (rule parse_fields)
  with m c show "is_complete (parsed_query res) = (missing_fields (parsed_query res) = [])"
    by simp
qed

theorem parser_is_complete_iff_witness:
  "parse ''mic $5 gym anc'' = Inr mic_query
   \<and> is_complete mic_query = (missing_fields mic_query = [])
   \<and> is_complete mic_query
   \<and> normalize_query ''mic $5 gym anc'' None = Inr (validate_query mic_query)
   \<and> is_complete (parsed_query (validate_query mic_query))
      = (missing_fields (parsed_query (validate_query mic_query)) = [])"
proof -
  have n: "normalize_query ''mic $5 gym anc'' None = Inr (validate_query mic_query)"
    by (simp add: normalize_query_def parse_mic truthy_def is_ambiguous_def mic_unambiguous)
  show ?thesis
    using parser_is_complete_iff
      [of "''mic $5 gym anc''" mic_query None "validate_query mic_query"] parse_mic n
    by (simp add: mic_query_def)
qed

text \<open>
  The claim C9 as it stands, over every \<open>ParsedQuery\<close>, fails on the defaults of the
  class: a query constructed from a product type and a text alone is not complete and
  has no missing field.
\<close>

theorem is_complete_default_counterexample:
  "ParsedQuery_defaults HEADPHONES ''headphones'' = Inr default_query
   \<and> is_complete default_query = False
   \<and> missing_fields default_query = []
   \<and> \<not> (is_complete default_query \<longleftrightarrow> missing_fields default_query = [])"
  by (simp add: ParsedQuery_defaults_def ParsedQuery_init_def default_query_def)

section \<open>The invariant of the price range\<close>

lemma price_answer_ok: "price_ok old \<Longrightarrow> price_ok (price_answer r old)"
  by (auto simp: price_answer_def price_ok_def PriceRange_ok_def split: sum.splits)

lemma apply_response_price_ok:
  "price_ok (price_range q) \<Longrightarrow> price_ok (price_range (apply_response q a r))"
  by (cases "field_name a = ''price_range''")
     (simp_all add: apply_response_price price_answer_ok apply_response_other_field)

lemma clarify_loop_price_ok:
  "price_ok (price_range q) \<Longrightarrow> price_ok (price_range (fst (clarify_loop rs ambs (q, made))))"
  by (induction ambs arbitrary: q made) (auto simp: apply_response_price_ok split: option.splits)

lemma clarify_query_price_ok:
  "price_ok (price_range q) \<Longrightarrow> price_ok (price_range (parsed_query (clarify_query q rs)))"
  by (simp add: parsed_query_clarify clarify_loop_price_ok)

lemma parse_price_ok: "\<exists>pq. parse query = Inr pq \<and> price_ok (price_range pq)"
  using extract_price_range_total [of query] parse_price_range [of query] by blast

lemma normalize_price_ok:
  "\<exists>res. normalize_query query rs = Inr res \<and> price_ok (price_range (parsed_query res))"
proof -
  from parse_price_ok obtain pq where pq: "parse query = Inr pq" "price_ok (price_range pq)"
    by blast
  then show ?thesis
    by (simp add: normalize_query_def clarify_query_price_ok)
qed

text \<open>
  C7. A constructed \<open>PriceRange\<close> has non-negative bounds with \<open>min \<le> max\<close>;
  the construction fails when the maximum is below the minimum, as for
  \<open>PriceRange(min_price=5000, max_price=2000)\<close>; and the price range of a query
  satisfies the invariant after every operation of the pipeline: the parser, the
  application of a response, the clarifier, the validator and the normalizer.
\<close>

theorem price_range_invariant:
  "(PriceRange_init mn mx = Inr p \<longrightarrow> PriceRange_ok p)
   \<and> (hi < lo \<longrightarrow> PriceRange_init lo hi = Inl ValidationError)
   \<and> PriceRange_init 5000 2000 = Inl ValidationError
   \<and> (\<exists>pq. parse query = Inr pq \<and> price_ok (price_range pq))
   \<and> (price_ok (price_range q) \<longrightarrow> price_ok (price_range (apply_response q a r)))
   \<and> (price_ok (price_range q)
        \<longrightarrow> price_ok (price_range (parsed_query (clarify_query q rs))))
   \<and> (price_ok (price_range q)
        \<longrightarrow> price_ok (price_range (parsed_query (validate_query q))))
   \<and> (\<exists>res. normalize_query query rs = Inr res \<and> price_ok (price_range (parsed_query res)))"
proof (intro conjI impI)
  show "PriceRange_ok p" if "PriceRange_init mn mx = Inr p"
    using that by (rule PriceRange_init_ok)
  show "PriceRange_init lo hi = Inl ValidationError" if "hi < lo"
    using that by (simp add: PriceRange_init_eq)
  show "PriceRange_init 5000 2000 = Inl ValidationError"
    by (simp add: PriceRange_init_eq)
  show "\<exists>pq. parse query = Inr pq \<and> price_ok (price_range pq)"
    by (rule parse_price_ok)
  show "price_ok (price_range (apply_response q a r))" if "price_ok (price_range q)"
    using that by (rule apply_response_price_ok)
  show "price_ok (price_range (parsed_query (clarify_query q rs)))" if "price_ok (price_range q)"
    using that by (rule clarify_query_price_ok)
  show "price_ok (price_range (parsed_query (validate_query q)))" if "price_ok (price_range q)"
    using that by simp
  show "\<exists>res. normalize_query query rs = Inr res \<and> price_ok (price_range (parsed_query res))"
    by (rule normalize_price_ok)
qed

theorem price_range_invariant_witness:
  "PriceRange_init 1000 5000 = Inr \<lparr>min_price = 1000, max_price = 5000\<rparr>
   \<and> PriceRange_ok \<lparr>min_price = 1000, max_price = 5000\<rparr>
   \<and> (2000 :: rat) < 5000
   \<and> PriceRange_init 5000 2000 = Inl ValidationError
   \<and> price_ok (price_range laptop_query)
   \<and> price_ok (price_range (apply_response laptop_query budget_request ''75000''))
   \<and> price_ok (price_range (parsed_query
        (clarify_query laptop_query (Some [(''price_range'', ''75000'')]))))
   \<and> price_ok (price_range (parsed_query (validate_query laptop_query)))
   \<and> (\<exists>pq. parse ''gaming laptop'' = Inr pq \<and> price_ok (price_range pq))
   \<and> (\<exists>res. normalize_query ''gaming laptop'' (Some [(''price_range'', ''75000'')]) = Inr res
          \<and> price_ok (price_range (parsed_query res)))"
proof -
  have i: "PriceRange_init 1000 5000 = Inr \<lparr>min_price = 1000, max_price = 5000\<rparr>"
    by (simp add: PriceRange_init_eq)
  have l: "price_ok (price_range laptop_query)"
    by (simp add: laptop_query_def price_ok_def)
  show ?thesis
    using price_range_invariant [of 1000 5000 "\<lparr>min_price = 1000, max_price = 5000\<rparr>"
        2000 5000 "''gaming laptop''" laptop_query budget_request "''75000''"
        "Some [(''price_range'', ''75000'')]"] i l
    by simp
qed

end
